theory Spec2Isabelle
  imports Main "HOL-Library.Word" "HOL-Library.Log_Nat"
begin

unbundle bit_operations_syntax

section \<open>Data model of Controller.cpp\<close>

type_synonym uchar = "8 word"
type_synonym ushort = "16 word"
type_synonym short = "16 word"
type_synonym cint = "32 word"
type_synonym byte_buf = "uchar list"

text \<open>
  Modelled from the spec: the \<open>Button\<close> enumeration is declared in Controller.hpp, which is
  not part of the sources at hand. The constructors are the enumerators that Controller.cpp
  names (\<open>buttonToString\<close>, \<open>buttonToReportBits\<close>, \<open>mapButtonToReport\<close>), and \<open>Unknown\<close> stands
  for any value that is none of them (section 3 of the spec lists "none" and "unknown").
  \<open>Button::None\<close> is written \<open>None_b\<close>.
\<close>

datatype Button =
    A | B | X | Y | LStick | RStick | L | LZ | R | RZ | Home | Share | Plus | Minus
  | DPadDown | DPadUp | DPadLeft | DPadRight | None_b | Unknown

text \<open>
  \<open>ButtonSource\<close> is declared in Controller.hpp as well; \<open>getButtonMap\<close> names three
  enumerators and has a \<open>default\<close> branch, for which \<open>UnknownSource\<close> stands.
\<close>

datatype ButtonSource = Left | Middle | Right | UnknownSource

text \<open>\<open>std::array<Button, 8>\<close>: eight slots, indexed 0..7.\<close>

datatype 'a array8 = Array8 'a 'a 'a 'a 'a 'a 'a 'a

fun to_list :: "'a array8 \<Rightarrow> 'a list" where
  "to_list (Array8 a0 a1 a2 a3 a4 a5 a6 a7) = [a0, a1, a2, a3, a4, a5, a6, a7]"

definition at8 :: "'a array8 \<Rightarrow> nat \<Rightarrow> 'a" where
  "at8 arr i = to_list arr ! i"

text \<open>
  The constants of Controller.hpp that Controller.cpp uses and that are not available:
  the product id of the physical controller and the three bit tables. They are parameters
  of the model.
\<close>

record header_consts =
  Procon_ID :: ushort
  JoyconLBitmap :: "Button array8"
  JoyconMidBitmap :: "Button array8"
  JoyconRBitmap :: "Button array8"

text \<open>The struct \<open>InputPacket\<close>: 8 + 5 + 1 + 1 + 1 + 6 = 22 bytes, all of type \<open>uint8_t\<close>.\<close>

record InputPacket =
  header :: "uchar list"
  unknown :: "uchar list"
  rightButtons :: uchar
  middleButtons :: uchar
  leftButtons :: uchar
  sticks :: "uchar list"

definition sizeof_InputPacket :: nat where
  "sizeof_InputPacket = 8 + 5 + 1 + 1 + 1 + 6"

text \<open>
  Modelled from the spec: the buffer that an exchange returns is declared in Controller.hpp,
  which is missing. Section 4.1 describes it as "a fixed-size byte buffer (at least the size
  of the InputPacket layout)". The type holds the byte sequences of every such size, so that
  what is proved for all its values holds whatever the fixed size is. \<open>bytes_of\<close> reads the
  bytes of a buffer; \<open>buf_of\<close> builds a buffer from the bytes a device sends, the rest of
  the buffer being zero.
\<close>

typedef exchange_buf = "{xs :: uchar list. sizeof_InputPacket \<le> length xs}"
  morphisms bytes_of Abs_exchange_buf
  by (rule exI [of _ "replicate sizeof_InputPacket 0"]) simp

definition buf_of :: "byte_buf \<Rightarrow> exchange_buf" where
  "buf_of xs = Abs_exchange_buf (xs @ replicate (sizeof_InputPacket - length xs) 0)"

text \<open>The report of the virtual controller (\<open>XUSB_REPORT\<close> of the driver's client library).\<close>

record XUSB_REPORT =
  wButtons :: ushort
  bLeftTrigger :: uchar
  bRightTrigger :: uchar
  sThumbLX :: short
  sThumbLY :: short
  sThumbRX :: short
  sThumbRY :: short

definition XUSB_REPORT_zero :: XUSB_REPORT where
  "XUSB_REPORT_zero = \<lparr>wButtons = 0, bLeftTrigger = 0, bRightTrigger = 0,
     sThumbLX = 0, sThumbLY = 0, sThumbRX = 0, sThumbRY = 0\<rparr>"

text \<open>Exceptions thrown by the code.\<close>

datatype exn =
    ControllerException string
  | logic_error string

section \<open>Packet codec: the stick samples\<close>

text \<open>
  The four locals of \<open>mapInputToReport\<close>. The operands are promoted to \<open>int\<close>, the
  result is converted back to \<open>uchar\<close>.
\<close>

definition promote :: "uchar \<Rightarrow> cint" where
  "promote c = ucast c"

definition to_uchar :: "cint \<Rightarrow> uchar" where
  "to_uchar v = ucast v"

definition LeftX :: "InputPacket \<Rightarrow> uchar" where
  "LeftX p = to_uchar (push_bit 4 (promote (sticks p ! 1) AND 0x0F)
                        OR drop_bit 4 (promote (sticks p ! 0) AND 0xF0))"

definition LeftY :: "InputPacket \<Rightarrow> uchar" where
  "LeftY p = sticks p ! 2"

definition RightX :: "InputPacket \<Rightarrow> uchar" where
  "RightX p = to_uchar (push_bit 4 (promote (sticks p ! 4) AND 0x0F)
                         OR drop_bit 4 (promote (sticks p ! 3) AND 0xF0))"

definition RightY :: "InputPacket \<Rightarrow> uchar" where
  "RightY p = sticks p ! 5"

section \<open>Axis normalizer\<close>

text \<open>
  \<open>double\<close> arithmetic, as IEEE 754 binary64 with the default rounding (to nearest, ties to
  even), every operation rounded on its own. A finite \<open>double\<close> is the rational number it
  denotes; the values of this program stay far below the overflow threshold, and neither an
  infinity nor a NaN arises. \<open>round_double\<close> maps the exact result of an operation to the
  nearest value with a 53-bit significand (subnormal below \<open>2^-1022\<close>).
\<close>

type_synonym double = rat

definition rne :: "rat \<Rightarrow> int" where
  "rne r = (let f = \<lfloor>r\<rfloor>; d = r - of_int f
            in if d < 1 / 2 then f else if 1 / 2 < d then f + 1
               else if even f then f else f + 1)"

definition ilog2 :: "rat \<Rightarrow> int" where
  "ilog2 x = (case quotient_of x of (p, q) \<Rightarrow>
      let k = bitlen p - bitlen q in if 2 powi k \<le> x then k else k - 1)"

definition round_double :: "rat \<Rightarrow> double" where
  "round_double x = (if x = 0 then 0 else
      let e = max (ilog2 \<bar>x\<bar>) (- 1022); u = 2 powi (e - 52)
      in of_int (rne (x / u)) * u)"

definition dadd :: "double \<Rightarrow> double \<Rightarrow> double" where
  "dadd a b = round_double (a + b)"

definition dsub :: "double \<Rightarrow> double \<Rightarrow> double" where
  "dsub a b = round_double (a - b)"

definition dmul :: "double \<Rightarrow> double \<Rightarrow> double" where
  "dmul a b = round_double (a * b)"

definition ddiv :: "double \<Rightarrow> double \<Rightarrow> double" where
  "ddiv a b = round_double (a / b)"

text \<open>\<open>std::clamp(v, lo, hi)\<close>.\<close>

definition clamp :: "double \<Rightarrow> double \<Rightarrow> double \<Rightarrow> double" where
  "clamp v lo hi = (if v < lo then lo else if hi < v then hi else v)"

definition lerp :: "double \<Rightarrow> double \<Rightarrow> double \<Rightarrow> double" where
  "lerp mn mx t = dadd (dmul (dsub 1 t) mn) (dmul t mx)"

text \<open>\<open>static_cast<short>\<close> of a \<open>double\<close> discards the fractional part.\<close>

definition trunc_to_int :: "double \<Rightarrow> int" where
  "trunc_to_int x = (if 0 \<le> x then \<lfloor>x\<rfloor> else - \<lfloor>- x\<rfloor>)"

definition ucmax :: uchar where
  "ucmax = 255"

definition smax :: short where
  "smax = 32767"

definition smin :: short where
  "smin = - 32768"

definition expandUChar :: "uchar \<Rightarrow> short" where
  "expandUChar c =
     (let d = clamp (ddiv (of_nat (unat c)) (of_nat (unat ucmax))) 0 1
      in word_of_int (trunc_to_int (lerp (of_int (sint smin)) (of_int (sint smax)) d)))"

section \<open>Button mapping tables\<close>

definition getButtonMap :: "header_consts \<Rightarrow> ButtonSource \<Rightarrow> exn + Button array8" where
  "getButtonMap hc s =
     (case s of
        Left \<Rightarrow> Inr (JoyconLBitmap hc)
      | Middle \<Rightarrow> Inr (JoyconMidBitmap hc)
      | Right \<Rightarrow> Inr (JoyconRBitmap hc)
      | UnknownSource \<Rightarrow> Inl (logic_error ''Unknown ButtonSource passed to getButtonMap''))"

text \<open>The loop of \<open>pullButtonsFromByte\<close>, from counter \<open>i\<close> on; \<open>1 << i\<close> is an \<open>int\<close>.\<close>

function pullButtons_loop ::
  "uchar \<Rightarrow> Button array8 \<Rightarrow> nat \<Rightarrow> (Button \<times> bool) list \<Rightarrow> (Button \<times> bool) list" where
  "pullButtons_loop c m i out =
     (if i < 8
      then (if at8 m i = None_b then pullButtons_loop c m (i + 1) out
            else pullButtons_loop c m (i + 1)
                   (out @ [(at8 m i, promote c AND push_bit i 1 \<noteq> 0)]))
      else out)"
  by pat_completeness auto
termination
  by (relation "measure (\<lambda>(c, m, i, out). 8 - i)") auto

declare pullButtons_loop.simps [simp del]

definition pullButtonsFromByte ::
  "header_consts \<Rightarrow> uchar \<Rightarrow> ButtonSource \<Rightarrow> (Button \<times> bool) list
     \<Rightarrow> exn + (Button \<times> bool) list" where
  "pullButtonsFromByte hc c src out =
     (case getButtonMap hc src of
        Inl e \<Rightarrow> Inl e
      | Inr m \<Rightarrow> Inr (pullButtons_loop c m 0 out))"

definition buttonToReportBits :: "Button \<Rightarrow> ushort" where
  "buttonToReportBits b =
     (case b of
        DPadUp \<Rightarrow> 0x0001
      | DPadDown \<Rightarrow> 0x0002
      | DPadLeft \<Rightarrow> 0x0004
      | DPadRight \<Rightarrow> 0x0008
      | Plus \<Rightarrow> 0x0010
      | Minus \<Rightarrow> 0x0020
      | LStick \<Rightarrow> 0x0040
      | RStick \<Rightarrow> 0x0080
      | L \<Rightarrow> 0x0100
      | R \<Rightarrow> 0x0200
      | Home \<Rightarrow> 0x0400
      | A \<Rightarrow> 0x1000
      | B \<Rightarrow> 0x2000
      | X \<Rightarrow> 0x4000
      | Y \<Rightarrow> 0x8000
      | _ \<Rightarrow> 0x0000)"

definition BYTE_max :: uchar where
  "BYTE_max = 255"

definition mapButtonToReport :: "Button \<Rightarrow> XUSB_REPORT \<Rightarrow> XUSB_REPORT" where
  "mapButtonToReport b report =
     (case b of
        LZ \<Rightarrow> report\<lparr>bLeftTrigger := BYTE_max\<rparr>
      | RZ \<Rightarrow> report\<lparr>bRightTrigger := BYTE_max\<rparr>
      | _ \<Rightarrow> report\<lparr>wButtons := wButtons report OR buttonToReportBits b\<rparr>)"

text \<open>The loop over the decoded pairs: only pressed buttons reach the report.\<close>

fun mapPressed :: "(Button \<times> bool) list \<Rightarrow> XUSB_REPORT \<Rightarrow> XUSB_REPORT" where
  "mapPressed [] report = report"
| "mapPressed ((b, pressed) # rest) report =
     (if pressed then mapPressed rest (mapButtonToReport b report)
      else mapPressed rest report)"

definition mapInputToReport ::
  "header_consts \<Rightarrow> InputPacket \<Rightarrow> XUSB_REPORT \<Rightarrow> exn + XUSB_REPORT" where
  "mapInputToReport hc p report =
     (let report1 = report\<lparr>sThumbLX := expandUChar (LeftX p),
                            sThumbLY := expandUChar (LeftY p),
                            sThumbRX := expandUChar (RightX p),
                            sThumbRY := expandUChar (RightY p)\<rparr>
      in case pullButtonsFromByte hc (leftButtons p) Left [] of
           Inl e \<Rightarrow> Inl e
         | Inr b1 \<Rightarrow>
             (case pullButtonsFromByte hc (rightButtons p) Right b1 of
                Inl e \<Rightarrow> Inl e
              | Inr b2 \<Rightarrow>
                  (case pullButtonsFromByte hc (middleButtons p) Middle b2 of
                     Inl e \<Rightarrow> Inl e
                   | Inr buttons \<Rightarrow> Inr (mapPressed buttons report1))))"

text \<open>
  \<open>memcpy(&p, dat.value().data(), sizeof(InputPacket))\<close>: the first 22 bytes of the buffer,
  laid out field by field.
\<close>

definition memcpy_InputPacket :: "exchange_buf \<Rightarrow> InputPacket" where
  "memcpy_InputPacket dat =
     \<lparr>header = take 8 (bytes_of dat),
      unknown = take 5 (drop 8 (bytes_of dat)),
      rightButtons = bytes_of dat ! 13,
      middleButtons = bytes_of dat ! 14,
      leftButtons = bytes_of dat ! 15,
      sticks = take 6 (drop 16 (bytes_of dat))\<rparr>"

section \<open>Sessions, the registry and the collaborators\<close>

type_synonym addr = nat
type_synonym hid_device = nat

text \<open>
  The target structure and the status codes of the virtual-controller client library, with
  the fields that Controller.cpp reads.
\<close>

datatype VIGEM_TARGET_STATE =
  VIGEM_TARGET_NEW | VIGEM_TARGET_INITIALIZED | VIGEM_TARGET_CONNECTED | VIGEM_TARGET_DISCONNECTED

record VIGEM_TARGET =
  ProductId :: ushort
  SerialNo :: "32 word"
  State :: VIGEM_TARGET_STATE
  VendorId :: ushort

datatype VIGEM_ERROR = VIGEM_ERROR_NONE | VIGEM_ERROR_CODE nat

record hid_device_info =
  product_id :: ushort
  vendor_id :: ushort
  path :: string

text \<open>
  The members of \<open>Controller\<close> that Controller.cpp touches; \<open>device\<close> is the owning pointer,
  \<open>None\<close> for \<open>nullptr\<close>. The last member, \<open>subcommandId\<close>, is modelled from the spec (see
  \<open>sendSubcommand\<close> below): the id that the next subcommand of the session is tagged with.
\<close>

record Controller =
  vController :: VIGEM_TARGET
  device :: "hid_device option"
  lastCommand :: nat
  currentLed :: uchar
  largeMotor :: uchar
  smallMotor :: uchar
  subcommandId :: uchar

text \<open>
  Calls into the collaborators, in the order in which they are made. A \<open>sendSubcommand\<close>
  call carries the session, the id it is tagged with, and its three arguments.
\<close>

datatype event =
    hid_open_path string
  | hid_close hid_device
  | exchange_call addr byte_buf
  | sendCommand_call addr uchar byte_buf
  | sendSubcommand_call addr uchar uchar uchar byte_buf
  | vigem_target_plugin_call VIGEM_TARGET
  | vigem_target_unplug_call VIGEM_TARGET
  | vigem_register_xusb_notification_call VIGEM_TARGET
  | vigem_xusb_submit_report_call VIGEM_TARGET XUSB_REPORT
  | sleep_for_milliseconds nat
  | cout_vigem_error VIGEM_ERROR

text \<open>What the collaborators answer, as a function of the calls made so far.\<close>

record env =
  open_reply :: "event list \<Rightarrow> string \<Rightarrow> hid_device option"
  io_reply :: "event list \<Rightarrow> event \<Rightarrow> exchange_buf option"
  plugin_reply :: "event list \<Rightarrow> VIGEM_ERROR \<times> 32 word"
  submit_reply :: "event list \<Rightarrow> VIGEM_ERROR"
  clock_now :: "event list \<Rightarrow> nat"

text \<open>
  The objects (by address), the registry \<open>controllers\<close> of references to them, and the
  calls made so far. The registry mutex makes every operation below one atomic step.
\<close>

record world =
  heap :: "addr \<Rightarrow> Controller"
  controllers :: "addr list"
  trace :: "event list"

definition emit :: "event \<Rightarrow> world \<Rightarrow> world" where
  "emit e w = w\<lparr>trace := trace w @ [e]\<rparr>"

definition update_obj :: "addr \<Rightarrow> (Controller \<Rightarrow> Controller) \<Rightarrow> world \<Rightarrow> world" where
  "update_obj a f w = w\<lparr>heap := (heap w)(a := f (heap w a))\<rparr>"

text \<open>
  Modelled from the spec: the member functions \<open>exchange\<close> and \<open>sendCommand\<close> are defined in
  Controller.hpp, which is missing. Section 6 gives their interface,
  \<open>sendReceive(handle, bytes) -> optional(bytes) | fails\<close>: each is a call that the device
  answers with a buffer or with nothing.
\<close>

definition exchange ::
  "env \<Rightarrow> addr \<Rightarrow> byte_buf \<Rightarrow> world \<Rightarrow> exchange_buf option \<times> world" where
  "exchange ev self bytes w =
     (io_reply ev (trace w) (exchange_call self bytes), emit (exchange_call self bytes) w)"

definition sendCommand ::
  "env \<Rightarrow> addr \<Rightarrow> uchar \<Rightarrow> byte_buf \<Rightarrow> world \<Rightarrow> exchange_buf option \<times> world" where
  "sendCommand ev self command bytes w =
     (io_reply ev (trace w) (sendCommand_call self command bytes),
      emit (sendCommand_call self command bytes) w)"

text \<open>
  Modelled from the spec: the member function \<open>sendSubcommand\<close> is defined in Controller.hpp,
  which is missing. By the glossary a subcommand is "a vendor-specific sub-protocol message
  sent inside a generic output report, tagged with an incrementing id", and section 6 makes the
  id one byte. So the call is tagged with the id of the session, and the id is incremented (as
  a byte) for the next one; the first argument is the command of the output report.
\<close>

definition sendSubcommand ::
  "env \<Rightarrow> addr \<Rightarrow> uchar \<Rightarrow> uchar \<Rightarrow> byte_buf \<Rightarrow> world \<Rightarrow> exchange_buf option \<times> world" where
  "sendSubcommand ev self command subcommand bytes w =
     (let tag = subcommandId (heap w self);
          call = sendSubcommand_call self tag command subcommand bytes
      in (io_reply ev (trace w) call,
          update_obj self (\<lambda>c. c\<lparr>subcommandId := tag + 1\<rparr>) (emit call w)))"

definition getMAC :: byte_buf where "getMAC = [0x80, 0x01]"
definition handshake :: byte_buf where "handshake = [0x80, 0x02]"
definition switchBaudrate :: byte_buf where "switchBaudrate = [0x80, 0x03]"
definition HIDOnlyMode :: byte_buf where "HIDOnlyMode = [0x80, 0x04]"
definition disconnect :: byte_buf where "disconnect = [0x80, 0x05]"
definition enable :: byte_buf where "enable = [0x01]"
definition rumbleCommand :: uchar where "rumbleCommand = 0x48"
definition imuDataCommand :: uchar where "imuDataCommand = 0x40"
definition ledCommand :: uchar where "ledCommand = 0x30"
definition led :: byte_buf where "led = [0x1]"
definition getInput :: uchar where "getInput = 0x1f"
definition empty :: byte_buf where "empty = []"

subsection \<open>Construction and destruction\<close>

text \<open>
  \<open>VIGEM_TARGET_INIT\<close> of the client library clears the structure and marks it initialized.
\<close>

definition VIGEM_TARGET_INIT :: VIGEM_TARGET where
  "VIGEM_TARGET_INIT =
     \<lparr>ProductId = 0, SerialNo = 0, State = VIGEM_TARGET_INITIALIZED, VendorId = 0\<rparr>"

text \<open>
  The constructor initializes \<open>vController\<close> and \<open>device\<close> and appends a reference to the
  object to the registry; the other members keep whatever the memory held.
\<close>

definition Controller_ctor :: "addr \<Rightarrow> world \<Rightarrow> world" where
  "Controller_ctor self w =
     (update_obj self (\<lambda>c. c\<lparr>vController := VIGEM_TARGET_INIT, device := None\<rparr>) w)
       \<lparr>controllers := controllers w @ [self]\<rparr>"

text \<open>\<open>device.reset(p)\<close>: store the new pointer, then close the old handle if there was one.\<close>

definition device_reset :: "addr \<Rightarrow> hid_device option \<Rightarrow> world \<Rightarrow> world" where
  "device_reset self p w =
     (let old = device (heap w self);
          w1 = update_obj self (\<lambda>c. c\<lparr>device := p\<rparr>) w
      in case old of None \<Rightarrow> w1 | Some h \<Rightarrow> emit (hid_close h) w1)"

text \<open>
  The three statements of the destructor's body, then the destruction of \<open>device\<close>. What
  \<open>vigem_target_unplug\<close> writes into the target of the dying object is not recorded.
\<close>

definition dtor_unplug :: "addr \<Rightarrow> world \<Rightarrow> world" where
  "dtor_unplug self w =
     (if State (vController (heap w self)) = VIGEM_TARGET_CONNECTED
      then emit (vigem_target_unplug_call (vController (heap w self))) w
      else w)"

definition dtor_disconnect :: "env \<Rightarrow> addr \<Rightarrow> world \<Rightarrow> world" where
  "dtor_disconnect ev self w =
     (if device (heap w self) \<noteq> None then snd (exchange ev self disconnect w) else w)"

definition dtor_erase :: "addr \<Rightarrow> world \<Rightarrow> world" where
  "dtor_erase self w = w\<lparr>controllers := remove1 self (controllers w)\<rparr>"

definition Controller_dtor :: "env \<Rightarrow> addr \<Rightarrow> world \<Rightarrow> world" where
  "Controller_dtor ev self w =
     device_reset self None (dtor_erase self (dtor_disconnect ev self (dtor_unplug self w)))"

subsection \<open>Feedback correlator\<close>

definition targetEquals :: "VIGEM_TARGET \<Rightarrow> VIGEM_TARGET \<Rightarrow> bool" where
  "targetEquals lhs rhs \<longleftrightarrow>
     ProductId lhs = ProductId rhs \<and>
     SerialNo lhs = SerialNo rhs \<and>
     State lhs = State rhs \<and>
     VendorId lhs = VendorId rhs"

definition vigemCallback :: "VIGEM_TARGET \<Rightarrow> uchar \<Rightarrow> uchar \<Rightarrow> uchar \<Rightarrow> world \<Rightarrow> world" where
  "vigemCallback t LargeMotor SmallMotor LEDNumber w =
     (case find (\<lambda>r. targetEquals (vController (heap w r)) t) (controllers w) of
        None \<Rightarrow> w
      | Some con \<Rightarrow>
          update_obj con (\<lambda>c. c\<lparr>currentLed := LEDNumber, largeMotor := LargeMotor,
                                  smallMotor := SmallMotor\<rparr>) w)"

subsection \<open>Opening the device\<close>

text \<open>
  \<open>vigem_target_plugin\<close> of the client library: on success the target is connected and
  carries the serial number the driver assigned; on failure it is left as it was.
\<close>

definition vigem_target_plugin :: "env \<Rightarrow> addr \<Rightarrow> world \<Rightarrow> VIGEM_ERROR \<times> world" where
  "vigem_target_plugin ev self w =
     (let (err, serial) = plugin_reply ev (trace w);
          w1 = emit (vigem_target_plugin_call (vController (heap w self))) w
      in if err = VIGEM_ERROR_NONE
         then (err, update_obj self
                 (\<lambda>c. c\<lparr>vController := (vController c)\<lparr>State := VIGEM_TARGET_CONNECTED,
                                                          SerialNo := serial\<rparr>\<rparr>) w1)
         else (err, w1))"

text \<open>The part of \<open>openDevice\<close> after the first handshake has been acknowledged.\<close>

definition openDevice_tail :: "env \<Rightarrow> addr \<Rightarrow> world \<Rightarrow> exn option \<times> world" where
  "openDevice_tail ev self w3 =
     (let w4 = snd (exchange ev self switchBaudrate w3);
          w5 = snd (exchange ev self handshake w4);
          w6 = snd (exchange ev self HIDOnlyMode w5);
          w7 = update_obj self (\<lambda>c. c\<lparr>lastCommand := clock_now ev (trace w6)\<rparr>) w6;
          w8 = snd (sendSubcommand ev self 0x1 rumbleCommand enable w7);
          w9 = snd (sendSubcommand ev self 0x1 imuDataCommand enable w8);
          w10 = snd (sendSubcommand ev self 0x1 ledCommand led w9);
          (err, w11) = vigem_target_plugin ev self w10
      in if err \<noteq> VIGEM_ERROR_NONE
         then (Some (ControllerException ''Unable to plugin ViGEm controller.''),
               device_reset self None w11)
         else (None,
               emit (sleep_for_milliseconds 100)
                 (emit (vigem_register_xusb_notification_call (vController (heap w11 self)))
                    (emit (sleep_for_milliseconds 100) w11))))"

definition openDevice ::
  "header_consts \<Rightarrow> env \<Rightarrow> addr \<Rightarrow> hid_device_info option \<Rightarrow> world \<Rightarrow> exn option \<times> world" where
  "openDevice hc ev self dev w =
     (case dev of
        None \<Rightarrow>
          (Some (ControllerException ''Unable to open controller device: dev was nullptr.''), w)
      | Some d \<Rightarrow>
          if product_id d \<noteq> Procon_ID hc
          then (Some (ControllerException
                  ''Unable to open controller device: product id was not a Switch Pro Controller.''), w)
          else
            (let w2 = device_reset self (open_reply ev (trace w) (path d))
                        (emit (hid_open_path (path d)) w)
             in if device (heap w2 self) = None
                then (Some (ControllerException
                        ''Unable to open controller device: device path could not be opened.''), w2)
                else
                  (case exchange ev self handshake w2 of
                     (None, w3) \<Rightarrow> (Some (ControllerException ''Handshake failed.''), w3)
                   | (Some ack, w3) \<Rightarrow> openDevice_tail ev self w3)))"

subsection \<open>Polling\<close>

text \<open>
  The block of \<open>pollInput\<close> that handles the buffer of a successful exchange.
\<close>

definition pollInput_report ::
  "header_consts \<Rightarrow> env \<Rightarrow> addr \<Rightarrow> exchange_buf \<Rightarrow> world \<Rightarrow> exn option \<times> world" where
  "pollInput_report hc ev self dat w =
     (if bytes_of dat ! 0 \<noteq> 0x30
      then (case mapInputToReport hc (memcpy_InputPacket dat) XUSB_REPORT_zero of
              Inl e \<Rightarrow> (Some e, w)
            | Inr report \<Rightarrow>
                (let err = submit_reply ev (trace w);
                     w1 = emit (vigem_xusb_submit_report_call
                                  (vController (heap w self)) report) w
                 in if err \<noteq> VIGEM_ERROR_NONE
                    then (None, emit (cout_vigem_error err) w1)
                    else (None, w1)))
      else (None, w))"

definition pollInput :: "header_consts \<Rightarrow> env \<Rightarrow> addr \<Rightarrow> world \<Rightarrow> exn option \<times> world" where
  "pollInput hc ev self w =
     (if device (heap w self) = None then (None, w)
      else
        (case sendCommand ev self getInput empty w of
           (None, w1) \<Rightarrow> (Some (ControllerException ''Error sending getInput command.''), w1)
         | (Some dat, w1) \<Rightarrow> pollInput_report hc ev self dat w1))"

section \<open>Auxiliary notions and concrete instances\<close>

text \<open>The binary exponent that \<open>round_double\<close> uses for a non-zero argument.\<close>

definition expo :: "rat \<Rightarrow> int" where
  "expo x = max (ilog2 \<bar>x\<bar>) (- 1022)"

text \<open>The two intermediate values of \<open>expandUChar\<close>.\<close>

definition axis_fraction :: "uchar \<Rightarrow> double" where
  "axis_fraction c = clamp (ddiv (of_nat (unat c)) (of_nat (unat ucmax))) 0 1"

definition axis_value :: "uchar \<Rightarrow> int" where
  "axis_value c =
     trunc_to_int (lerp (of_int (sint smin)) (of_int (sint smax)) (axis_fraction c))"

text \<open>The ids that the \<open>sendSubcommand\<close> calls of a trace are tagged with, in order.\<close>

fun subcommand_ids :: "event list \<Rightarrow> uchar list" where
  "subcommand_ids [] = []"
| "subcommand_ids (sendSubcommand_call a tag command subcommand bytes # es) =
     tag # subcommand_ids es"
| "subcommand_ids (e # es) = subcommand_ids es"

text \<open>
  An instance of the constants of Controller.hpp, for the examples: the product id of the
  controller and one table per byte group.
\<close>

definition sample_consts :: header_consts where
  "sample_consts =
     \<lparr>Procon_ID = 0x2009,
      JoyconLBitmap = Array8 DPadDown DPadUp DPadRight DPadLeft None_b None_b L LZ,
      JoyconMidBitmap = Array8 Minus Plus RStick LStick Home Share None_b None_b,
      JoyconRBitmap = Array8 Y X B A None_b None_b R RZ\<rparr>"

definition sample_dev :: hid_device_info where
  "sample_dev = \<lparr>product_id = 0x2009, vendor_id = 0x057E, path = ''pro0''\<rparr>"

definition blank_target :: VIGEM_TARGET where
  "blank_target = \<lparr>ProductId = 0, SerialNo = 0, State = VIGEM_TARGET_NEW, VendorId = 0\<rparr>"

definition blank_controller :: Controller where
  "blank_controller =
     \<lparr>vController = blank_target, device = None, lastCommand = 0,
      currentLed = 0, largeMotor = 0, smallMotor = 0, subcommandId = 0\<rparr>"

definition blank_world :: world where
  "blank_world = \<lparr>heap = (\<lambda>a. blank_controller), controllers = [], trace = []\<rparr>"

text \<open>A device that acknowledges everything, and a driver that accepts every request.\<close>

definition env_ok :: env where
  "env_ok =
     \<lparr>open_reply = (\<lambda>tr p. Some 7),
      io_reply = (\<lambda>tr e. Some (buf_of [0x81, 0x02])),
      plugin_reply = (\<lambda>tr. (VIGEM_ERROR_NONE, 1)),
      submit_reply = (\<lambda>tr. VIGEM_ERROR_NONE),
      clock_now = (\<lambda>tr. length tr)\<rparr>"

text \<open>A device that answers no exchange at all.\<close>

definition env_silent :: env where
  "env_silent = env_ok\<lparr>io_reply := (\<lambda>tr e. None)\<rparr>"

text \<open>A device that answers the poll with the given buffer.\<close>

definition env_poll :: "exchange_buf \<Rightarrow> env" where
  "env_poll dat = env_ok\<lparr>io_reply := (\<lambda>tr e. Some dat)\<rparr>"

text \<open>A world with two sessions, at addresses 1 and 2, both open and plugged in.\<close>

definition connected_target :: "32 word \<Rightarrow> VIGEM_TARGET" where
  "connected_target serial =
     \<lparr>ProductId = 0x028E, SerialNo = serial, State = VIGEM_TARGET_CONNECTED, VendorId = 0x045E\<rparr>"

definition two_sessions :: world where
  "two_sessions =
     \<lparr>heap = (\<lambda>a. blank_controller)
        (1 := blank_controller\<lparr>vController := connected_target 1, device := Some 7\<rparr>,
         2 := blank_controller\<lparr>vController := connected_target 2, device := Some 8\<rparr>),
      controllers = [1, 2],
      trace = []\<rparr>"

definition sample_report :: XUSB_REPORT where
  "sample_report = XUSB_REPORT_zero\<lparr>wButtons := 0x1000, sThumbLX := 5\<rparr>"

text \<open>
  The calls of \<open>openDevice\<close> between the first handshake and the plug-in, for a session whose
  next subcommand id is \<open>k\<close>.
\<close>

definition tail_calls :: "addr \<Rightarrow> uchar \<Rightarrow> event list" where
  "tail_calls self k =
     [exchange_call self [0x80, 0x03], exchange_call self [0x80, 0x02],
      exchange_call self [0x80, 0x04],
      sendSubcommand_call self k 1 0x48 [1], sendSubcommand_call self (k + 1) 1 0x40 [1],
      sendSubcommand_call self (k + 2) 1 0x30 [1]]"


section \<open>The axis normalizer is monotone and exact at both ends\<close>

lemma rne_of_int: "rne (of_int n) = n"
  by (simp add: rne_def)

lemma rne_lower: "\<lfloor>r\<rfloor> \<le> rne r"
  by (simp add: rne_def Let_def)

lemma rne_upper: "rne r \<le> \<lfloor>r\<rfloor> + 1"
  by (simp add: rne_def Let_def)

lemma rne_mono: "r \<le> s \<Longrightarrow> rne r \<le> rne s"
proof -
  assume rs: "r \<le> s"
  then have fg: "\<lfloor>r\<rfloor> \<le> \<lfloor>s\<rfloor>" by (rule floor_mono)
  show ?thesis
  proof (cases "\<lfloor>r\<rfloor> = \<lfloor>s\<rfloor>")
    case True
    with rs show ?thesis by (auto simp add: rne_def Let_def)
  next
    case False
    with fg have "\<lfloor>r\<rfloor> + 1 \<le> \<lfloor>s\<rfloor>" by simp
    with rne_upper [of r] rne_lower [of s] show ?thesis by linarith
  qed
qed

lemma rne_minus: "rne (- r) = - rne r"
proof (cases "r = of_int \<lfloor>r\<rfloor>")
  case True
  then obtain n where n: "r = of_int n" ..
  have "rne (of_int (- n)) = - n" by (rule rne_of_int)
  with n show ?thesis by (simp add: rne_of_int)
next
  case False
  have lo: "of_int \<lfloor>r\<rfloor> < r"
    using False by (auto simp add: less_le)
  have hi: "r < of_int \<lfloor>r\<rfloor> + 1"
    by linarith
  have fl: "\<lfloor>- r\<rfloor> = - \<lfloor>r\<rfloor> - 1"
    using lo hi by (intro floor_unique) simp_all
  show ?thesis
    unfolding rne_def Let_def fl using lo hi by (auto simp add: field_simps)
qed

lemma pow2_nat_powi: "0 \<le> n \<Longrightarrow> (2::rat) ^ nat n = 2 powi n"
  by (simp add: power_int_def)

lemma bitlen_rat_bounds:
  assumes "0 < p"
  shows "2 powi (bitlen p - 1) \<le> (of_int p :: rat)" and "(of_int p :: rat) < 2 powi bitlen p"
proof -
  from assms have b1: "1 \<le> bitlen p" by (simp add: bitlen_alt_def)
  from bitlen_bounds [OF assms] have "2 ^ nat (bitlen p - 1) \<le> p" and "p < 2 ^ nat (bitlen p)"
    by simp_all
  then have "(of_int (2 ^ nat (bitlen p - 1)) :: rat) \<le> of_int p"
    and "(of_int p :: rat) < of_int (2 ^ nat (bitlen p))"
    by (simp_all only: of_int_le_iff of_int_less_iff)
  then show "2 powi (bitlen p - 1) \<le> (of_int p :: rat)" and "(of_int p :: rat) < 2 powi bitlen p"
    using b1 by (simp_all add: power_int_def)
qed

lemma ilog2_bounds:
  assumes "0 < x"
  shows "2 powi (ilog2 x) \<le> x" and "x < 2 powi (ilog2 x + 1)"
proof -
  obtain p q where pq: "quotient_of x = (p, q)" by (cases "quotient_of x")
  then have q: "0 < q" and x: "x = of_int p / of_int q"
    by (rule quotient_of_denom_pos, rule quotient_of_div)
  from assms q x have p: "0 < p" by (simp add: zero_less_divide_iff)
  note bp = bitlen_rat_bounds [OF p] and bq = bitlen_rat_bounds [OF q]
  have qpos: "(0::rat) < of_int q" using q by simp
  have ppos: "(0::rat) < of_int p" using p by simp
  have up: "x < 2 powi (bitlen p - bitlen q + 1)"
  proof -
    have "x * 2 powi (bitlen q - 1) \<le> x * of_int q"
      using bq(1) assms by (simp add: mult_left_mono)
    also have "\<dots> = of_int p" using x qpos by simp
    also have "\<dots> < 2 powi bitlen p" by (rule bp(2))
    also have "\<dots> = 2 powi (bitlen p - bitlen q + 1) * 2 powi (bitlen q - 1)"
      by (simp add: power_int_add [symmetric])
    finally show ?thesis by simp
  qed
  have lo: "2 powi (bitlen p - bitlen q - 1) \<le> x"
  proof -
    have "(2::rat) powi (bitlen p - bitlen q - 1) * of_int q \<le> 2 powi (bitlen p - bitlen q - 1) * 2 powi bitlen q"
      using bq(2) by (simp add: mult_left_mono)
    also have "\<dots> = 2 powi (bitlen p - 1)"
      by (simp add: power_int_add [symmetric])
    also have "\<dots> \<le> of_int p" by (rule bp(1))
    also have "\<dots> = x * of_int q" using x qpos by simp
    finally show ?thesis using qpos by simp
  qed
  show "2 powi (ilog2 x) \<le> x" using lo by (simp add: ilog2_def pq Let_def)
  show "x < 2 powi (ilog2 x + 1)" using up by (simp add: ilog2_def pq Let_def)
qed


lemma ilog2_mono:
  assumes "0 < x" and "x \<le> y"
  shows "ilog2 x \<le> ilog2 y"
proof (rule ccontr)
  assume "\<not> ilog2 x \<le> ilog2 y"
  then have "ilog2 y + 1 \<le> ilog2 x" by simp
  then have "(2::rat) powi (ilog2 y + 1) \<le> 2 powi ilog2 x"
    by (rule power_int_increasing) simp
  also have "\<dots> \<le> x" using assms(1) by (rule ilog2_bounds)
  also have "\<dots> \<le> y" by fact
  also have "\<dots> < 2 powi (ilog2 y + 1)"
    using assms by (intro ilog2_bounds) simp
  finally show False by simp
qed

lemma pw2_add: "(2::rat) powi a * 2 powi b = 2 powi (a + b)"
  by (simp add: power_int_add)

lemma pw2_diff: "(2::rat) powi a / 2 powi b = 2 powi (a - b)"
  by (simp add: power_int_diff)

lemma round_double_expo:
  "round_double x = (if x = 0 then 0 else of_int (rne (x / 2 powi (expo x - 52))) * 2 powi (expo x - 52))"
  by (simp add: round_double_def expo_def Let_def)

lemma round_double_minus: "round_double (- x) = - round_double x"
  by (simp add: round_double_expo expo_def rne_minus)

lemma round_double_nonneg:
  assumes "0 \<le> x"
  shows "0 \<le> round_double x"
proof (cases "x = 0")
  case True
  then show ?thesis by (simp add: round_double_def)
next
  case False
  have "0 \<le> x / 2 powi (expo x - 52)" using assms by simp
  then have "0 \<le> \<lfloor>x / 2 powi (expo x - 52)\<rfloor>" by simp
  with rne_lower [of "x / 2 powi (expo x - 52)"] have "0 \<le> rne (x / 2 powi (expo x - 52))"
    by linarith
  with False show ?thesis by (simp add: round_double_expo)
qed

lemma round_double_mono_pos:
  assumes x: "0 < x" and xy: "x \<le> y"
  shows "round_double x \<le> round_double y"
proof -
  from x xy have y: "0 < y" by simp
  have ee: "expo x \<le> expo y"
    using ilog2_mono [OF x xy] x y by (simp add: expo_def)
  let ?ux = "(2::rat) powi (expo x - 52)" and ?uy = "(2::rat) powi (expo y - 52)"
  have ux: "0 < ?ux" and uy: "0 < ?uy" by simp_all
  show ?thesis
  proof (cases "expo x = expo y")
    case True
    have "x / ?uy \<le> y / ?uy" using xy uy by (simp add: divide_right_mono)
    then have "rne (x / ?uy) \<le> rne (y / ?uy)" by (rule rne_mono)
    then have "of_int (rne (x / ?uy)) * ?uy \<le> of_int (rne (y / ?uy)) * ?uy"
      using uy by (simp add: mult_right_mono)
    with x y True show ?thesis by (simp add: round_double_expo)
  next
    case False
    with ee have lt: "expo x + 1 \<le> expo y" by simp
    then have ey: "expo y = ilog2 y" using y by (simp add: expo_def)
    have "ilog2 x \<le> expo x" using x by (simp add: expo_def)
    then have "(2::rat) powi (ilog2 x + 1) \<le> 2 powi (expo x + 1)"
      by (intro power_int_increasing) simp_all
    with ilog2_bounds(2) [OF x] have xb: "x < 2 powi (expo x + 1)" by simp
    have "x / ?ux \<le> 2 powi (expo x + 1) / ?ux"
      using xb ux by (simp add: divide_right_mono)
    also have "\<dots> = 2 powi (expo x + 1 - (expo x - 52))" by (rule pw2_diff)
    also have "expo x + 1 - (expo x - 52) = 53" by simp
    also have "(2::rat) powi 53 = of_int (2 ^ 53)" by simp
    finally have "rne (x / ?ux) \<le> rne (of_int (2 ^ 53))" by (rule rne_mono)
    then have "rne (x / ?ux) \<le> 2 ^ 53" by (simp only: rne_of_int)
    then have "(of_int (rne (x / ?ux)) :: rat) \<le> of_int (2 ^ 53)" by (simp only: of_int_le_iff)
    then have "of_int (rne (x / ?ux)) * ?ux \<le> of_int (2 ^ 53) * ?ux"
      using ux by (simp only: mult_right_mono less_imp_le)
    also have "of_int (2 ^ 53) * ?ux = 2 powi 53 * ?ux" by simp
    also have "\<dots> = 2 powi (53 + (expo x - 52))" by (rule pw2_add)
    also have "53 + (expo x - 52) = expo x + 1" by simp
    also have "(2::rat) powi (expo x + 1) \<le> 2 powi expo y"
      using lt by (intro power_int_increasing) simp_all
    finally have left: "round_double x \<le> 2 powi expo y"
      using x by (simp add: round_double_expo)
    have "(2::rat) powi expo y \<le> y" unfolding ey using y by (rule ilog2_bounds)
    then have "2 powi expo y / ?uy \<le> y / ?uy" using uy by (simp add: divide_right_mono)
    moreover have "2 powi expo y / ?uy = of_int (2 ^ 52)"
      using pw2_diff [of "expo y" "expo y - 52"] by simp
    ultimately have "rne (of_int (2 ^ 52)) \<le> rne (y / ?uy)" by (simp only: rne_mono)
    then have "2 ^ 52 \<le> rne (y / ?uy)" by (simp only: rne_of_int)
    then have "(of_int (2 ^ 52) :: rat) \<le> of_int (rne (y / ?uy))" by (simp only: of_int_le_iff)
    then have step: "of_int (2 ^ 52) * ?uy \<le> of_int (rne (y / ?uy)) * ?uy"
      using uy by (simp only: mult_right_mono less_imp_le)
    have "52 + (expo y - 52) = expo y" by simp
    with pw2_add [of 52 "expo y - 52"] have "2 powi expo y = 2 powi 52 * ?uy"
      by (simp only:)
    also have "\<dots> = of_int (2 ^ 52) * ?uy" by simp
    also note step
    also have "of_int (rne (y / ?uy)) * ?uy = round_double y"
      using y by (simp add: round_double_expo)
    finally have "2 powi expo y \<le> round_double y" .
    with left show ?thesis by simp
  qed
qed

lemma round_double_mono:
  assumes "x \<le> y"
  shows "round_double x \<le> round_double y"
proof -
  consider "0 < x" | "x \<le> 0" "0 \<le> y" | "y < 0" by linarith
  then show ?thesis
  proof cases
    case 1
    then show ?thesis using assms by (rule round_double_mono_pos)
  next
    case 2
    have "0 \<le> round_double (- x)" using 2(1) by (intro round_double_nonneg) simp
    then have "round_double x \<le> 0" by (simp add: round_double_minus)
    also have "0 \<le> round_double y" using 2(2) by (rule round_double_nonneg)
    finally show ?thesis .
  next
    case 3
    then have "0 < - y" and "- y \<le> - x" using assms by simp_all
    then have "round_double (- y) \<le> round_double (- x)" by (rule round_double_mono_pos)
    then show ?thesis by (simp add: round_double_minus)
  qed
qed


lemma round_double_0: "round_double 0 = 0"
  by (simp add: round_double_def)

lemma round_double_1: "round_double 1 = 1"
  by code_simp

lemma round_double_smin: "round_double (- 32768) = - 32768"
  by code_simp

lemma round_double_smax: "round_double 32767 = 32767"
  by code_simp

lemma clamp_mono: "v \<le> v' \<Longrightarrow> lo \<le> hi \<Longrightarrow> clamp v lo hi \<le> clamp v' lo hi"
  by (simp add: clamp_def)

lemma clamp_range: "lo \<le> hi \<Longrightarrow> lo \<le> clamp v lo hi \<and> clamp v lo hi \<le> hi"
  by (simp add: clamp_def)

lemma lerp_mono:
  assumes "mn \<le> 0" and "0 \<le> mx" and "t \<le> t'"
  shows "lerp mn mx t \<le> lerp mn mx t'"
proof -
  have "round_double (1 - t') \<le> round_double (1 - t)"
    using assms(3) by (intro round_double_mono) simp
  then have "round_double (1 - t) * mn \<le> round_double (1 - t') * mn"
    using assms(1) by (rule mult_right_mono_neg)
  then have a: "dmul (dsub 1 t) mn \<le> dmul (dsub 1 t') mn"
    unfolding dmul_def dsub_def by (rule round_double_mono)
  have "t * mx \<le> t' * mx" using assms(2,3) by (simp add: mult_right_mono)
  then have b: "dmul t mx \<le> dmul t' mx"
    unfolding dmul_def by (rule round_double_mono)
  from a b show ?thesis
    unfolding lerp_def dadd_def by (intro round_double_mono add_mono)
qed

lemma lerp_at_0: "lerp (- 32768) 32767 0 = - 32768"
  by (simp add: lerp_def dadd_def dmul_def dsub_def round_double_0 round_double_1 round_double_smin)

lemma lerp_at_1: "lerp (- 32768) 32767 1 = 32767"
  by (simp add: lerp_def dadd_def dmul_def dsub_def round_double_0 round_double_smax)

lemma trunc_to_int_mono: "x \<le> y \<Longrightarrow> trunc_to_int x \<le> trunc_to_int y"
  unfolding trunc_to_int_def
  by (auto simp add: floor_mono intro: order_trans [of _ 0]) 

lemma expandUChar_axis_value: "expandUChar c = word_of_int (axis_value c)"
  by (simp add: expandUChar_def axis_value_def axis_fraction_def)

lemma sint_smin: "sint smin = - 32768"
  by (simp add: smin_def)

lemma sint_smax: "sint smax = 32767"
  by (simp add: smax_def)

lemma rat_of_unat_mono: "c \<le> c' \<Longrightarrow> (of_nat (unat c) :: rat) \<le> of_nat (unat c')"
  by (simp only: of_nat_le_iff word_le_nat_alt)

lemma axis_fraction_mono: "c \<le> c' \<Longrightarrow> axis_fraction c \<le> axis_fraction c'"
  unfolding axis_fraction_def ddiv_def
  by (intro clamp_mono round_double_mono divide_right_mono rat_of_unat_mono of_nat_0_le_iff)
    simp_all

lemma axis_fraction_range: "0 \<le> axis_fraction c \<and> axis_fraction c \<le> 1"
  unfolding axis_fraction_def by (rule clamp_range) simp

lemma axis_value_mono: "c \<le> c' \<Longrightarrow> axis_value c \<le> axis_value c'"
  unfolding axis_value_def sint_smin sint_smax
  by (intro trunc_to_int_mono lerp_mono axis_fraction_mono) simp_all

lemma axis_value_range: "- 32768 \<le> axis_value c \<and> axis_value c \<le> 32767"
proof -
  have "lerp (- 32768) 32767 0 \<le> lerp (- 32768) 32767 (axis_fraction c)"
    using axis_fraction_range [of c] by (intro lerp_mono) simp_all
  then have "trunc_to_int (lerp (- 32768) 32767 0) \<le> axis_value c"
    unfolding axis_value_def sint_smin sint_smax by (intro trunc_to_int_mono) simp
  then have lo: "- 32768 \<le> axis_value c"
    by (simp add: lerp_at_0 trunc_to_int_def)
  have "lerp (- 32768) 32767 (axis_fraction c) \<le> lerp (- 32768) 32767 1"
    using axis_fraction_range [of c] by (intro lerp_mono) simp_all
  then have "axis_value c \<le> trunc_to_int (lerp (- 32768) 32767 1)"
    unfolding axis_value_def sint_smin sint_smax by (intro trunc_to_int_mono) simp
  then have hi: "axis_value c \<le> 32767"
    by (simp add: lerp_at_1 trunc_to_int_def)
  from lo hi show ?thesis ..
qed


lemma sint_expandUChar: "sint (expandUChar c) = axis_value c"
  unfolding expandUChar_axis_value
  using axis_value_range [of c] by (simp add: sint_sbintrunc' signed_take_bit_int_eq_self)

lemma axis_fraction_0: "axis_fraction 0 = 0"
  by (simp add: axis_fraction_def ddiv_def clamp_def round_double_0)

lemma axis_fraction_255: "axis_fraction 255 = 1"
  by (simp add: axis_fraction_def ddiv_def clamp_def ucmax_def round_double_1)

text \<open>
  Two samples at which the rounding of \<open>double\<close> shows: exact arithmetic would give
  \<open>257 * 43 - 32768 = -21717\<close> and \<open>257 * 130 - 32768 = 642\<close>.
\<close>

lemma expandUChar_rounding_examples:
  "sint (expandUChar 43) = - 21716 \<and> sint (expandUChar 130) = 641"
  by code_simp

text \<open>
  Claim C2. For all samples \<open>c \<le> c'\<close> the normalized axis values satisfy
  \<open>expandUChar c \<le> expandUChar c'\<close> as signed 16-bit numbers; \<open>expandUChar 0\<close> is the least
  signed 16-bit value and \<open>expandUChar 255\<close> the greatest.
\<close>

theorem expandUChar_monotone_endpoints:
  "(c \<le> c' \<longrightarrow> sint (expandUChar c) \<le> sint (expandUChar c'))
   \<and> expandUChar 0 = smin \<and> sint smin = - (2 ^ 15)
   \<and> expandUChar 255 = smax \<and> sint smax = 2 ^ 15 - 1"
proof -
  have "axis_value 0 = - 32768"
    by (simp add: axis_value_def axis_fraction_0 sint_smin sint_smax lerp_at_0 trunc_to_int_def)
  then have lo: "expandUChar 0 = smin"
    by (simp add: expandUChar_axis_value smin_def)
  have "axis_value 255 = 32767"
    by (simp add: axis_value_def axis_fraction_255 sint_smin sint_smax lerp_at_1 trunc_to_int_def)
  then have hi: "expandUChar 255 = smax"
    by (simp add: expandUChar_axis_value smax_def)
  show ?thesis
    using lo hi by (simp add: sint_expandUChar axis_value_mono sint_smin sint_smax)
qed

theorem expandUChar_monotone_endpoints_witness:
  "(3::uchar) \<le> 200 \<and> sint (expandUChar 3) \<le> sint (expandUChar 200)"
  using expandUChar_monotone_endpoints [of 3 200] by simp

section \<open>Stick samples and button bytes\<close>

lemma nibble_pack_uchar:
  "to_uchar (push_bit 4 (promote a AND 0x0F) OR drop_bit 4 (promote b AND 0xF0))
     = push_bit 4 (a AND 0x0F) OR drop_bit 4 (b AND 0xF0)"
  unfolding to_uchar_def promote_def
  by (rule bit_word_eqI) (auto simp add: bit_simps)

text \<open>
  Claim C1. For every input packet the stick samples decode to
  \<open>LeftX = ((sticks[1] & 0x0F) << 4) | ((sticks[0] & 0xF0) >> 4)\<close>, \<open>LeftY = sticks[2]\<close>,
  \<open>RightX = ((sticks[4] & 0x0F) << 4) | ((sticks[3] & 0xF0) >> 4)\<close>, \<open>RightY = sticks[5]\<close>, as
  8-bit values; the stick bytes \<open>34 05 78 9A 0B CD\<close> decode to \<open>53\<close>, \<open>78\<close>, \<open>B9\<close>, \<open>CD\<close>.
\<close>

theorem stick_decode:
  "LeftX p = push_bit 4 (sticks p ! 1 AND 0x0F) OR drop_bit 4 (sticks p ! 0 AND 0xF0)
   \<and> LeftY p = sticks p ! 2
   \<and> RightX p = push_bit 4 (sticks p ! 4 AND 0x0F) OR drop_bit 4 (sticks p ! 3 AND 0xF0)
   \<and> RightY p = sticks p ! 5
   \<and> LeftX (p\<lparr>sticks := [0x34, 0x05, 0x78, 0x9A, 0x0B, 0xCD]\<rparr>) = 0x53
   \<and> LeftY (p\<lparr>sticks := [0x34, 0x05, 0x78, 0x9A, 0x0B, 0xCD]\<rparr>) = 0x78
   \<and> RightX (p\<lparr>sticks := [0x34, 0x05, 0x78, 0x9A, 0x0B, 0xCD]\<rparr>) = 0xB9
   \<and> RightY (p\<lparr>sticks := [0x34, 0x05, 0x78, 0x9A, 0x0B, 0xCD]\<rparr>) = 0xCD"
proof -
  have lx: "LeftX p = push_bit 4 (sticks p ! 1 AND 0x0F) OR drop_bit 4 (sticks p ! 0 AND 0xF0)"
    unfolding LeftX_def by (rule nibble_pack_uchar)
  have rx: "RightX p = push_bit 4 (sticks p ! 4 AND 0x0F) OR drop_bit 4 (sticks p ! 3 AND 0xF0)"
    unfolding RightX_def by (rule nibble_pack_uchar)
  have ly: "LeftY p = sticks p ! 2" and ry: "RightY p = sticks p ! 5"
    by (simp_all add: LeftY_def RightY_def)
  have ex: "LeftX (p\<lparr>sticks := [0x34, 0x05, 0x78, 0x9A, 0x0B, 0xCD]\<rparr>) = 0x53"
    "LeftY (p\<lparr>sticks := [0x34, 0x05, 0x78, 0x9A, 0x0B, 0xCD]\<rparr>) = 0x78"
    "RightX (p\<lparr>sticks := [0x34, 0x05, 0x78, 0x9A, 0x0B, 0xCD]\<rparr>) = 0xB9"
    "RightY (p\<lparr>sticks := [0x34, 0x05, 0x78, 0x9A, 0x0B, 0xCD]\<rparr>) = 0xCD"
    by (simp_all add: LeftX_def RightX_def LeftY_def RightY_def to_uchar_def promote_def)
  from lx ly rx ry ex show ?thesis by (intro conjI)
qed

lemma bit_test_promoted:
  assumes "i < 8"
  shows "(promote c AND push_bit i 1 \<noteq> 0) = bit c i"
proof -
  have "(promote c AND 2 ^ i = 0) = (\<not> bit (promote c) i)"
    by (rule and_exp_eq_0_iff_not_bit)
  moreover have "bit (promote c) i = bit c i"
    using assms by (simp add: promote_def bit_ucast_iff)
  ultimately show ?thesis by (simp add: push_bit_of_1)
qed

lemma pullButtons_loop_eq:
  "pullButtons_loop c m i out =
     out @ map (\<lambda>j. (at8 m j, bit c j)) (filter (\<lambda>j. at8 m j \<noteq> None_b) [i..<8])"
proof (induction c m i out rule: pullButtons_loop.induct)
  case (1 c m i out)
  show ?case
  proof (cases "i < 8")
    case True
    then have upt: "[i..<8] = i # [i + 1..<8]" by (simp add: upt_conv_Cons)
    show ?thesis
    proof (cases "at8 m i = None_b")
      case slot: True
      with \<open>i < 8\<close> "1.IH"(1) upt show ?thesis
        by (subst pullButtons_loop.simps) simp
    next
      case False
      with \<open>i < 8\<close> "1.IH"(2) upt bit_test_promoted [OF \<open>i < 8\<close>, of c] show ?thesis
        by (subst pullButtons_loop.simps) simp
    qed
  next
    case False
    then show ?thesis by (subst pullButtons_loop.simps) simp
  qed
qed

text \<open>
  Claim C5. Decoding a byte \<open>c\<close> against the table of a byte group appends, in slot order,
  exactly one pair per slot \<open>i\<close> of the table whose entry is not \<open>None\<close>; the pair holds the
  entry and the flag "bit \<open>i\<close> of \<open>c\<close> is set". Slots holding \<open>None\<close> contribute nothing.
\<close>

theorem pullButtonsFromByte_pairs:
  "pullButtonsFromByte hc c Left out =
     Inr (out @ map (\<lambda>i. (at8 (JoyconLBitmap hc) i, bit c i))
                  (filter (\<lambda>i. at8 (JoyconLBitmap hc) i \<noteq> None_b) [0..<8]))
   \<and> pullButtonsFromByte hc c Middle out =
     Inr (out @ map (\<lambda>i. (at8 (JoyconMidBitmap hc) i, bit c i))
                  (filter (\<lambda>i. at8 (JoyconMidBitmap hc) i \<noteq> None_b) [0..<8]))
   \<and> pullButtonsFromByte hc c Right out =
     Inr (out @ map (\<lambda>i. (at8 (JoyconRBitmap hc) i, bit c i))
                  (filter (\<lambda>i. at8 (JoyconRBitmap hc) i \<noteq> None_b) [0..<8]))"
  by (simp add: pullButtonsFromByte_def getButtonMap_def pullButtons_loop_eq)

theorem pullButtonsFromByte_pairs_witness:
  "pullButtonsFromByte sample_consts 0x85 Right [] =
     Inr [(Y, True), (X, False), (B, True), (A, False), (R, False), (RZ, True)]"
  using pullButtonsFromByte_pairs [of sample_consts "0x85" "[]"]
  by (simp add: sample_consts_def at8_def upt_conv_Cons bit_numeral_word_iff)

section \<open>Outgoing button bits\<close>

text \<open>
  Claim C8, as stated, fails: \<open>Share\<close> is outside the domain of the output mapping and is no
  trigger, yet querying it yields no bits and leaves the report as it was, and so does an
  unrecognized value. Nothing is raised.
\<close>

theorem unmapped_button_counterexample:
  "buttonToReportBits Share = 0
   \<and> mapButtonToReport Share sample_report = sample_report
   \<and> mapButtonToReport Unknown sample_report = sample_report"
  by (simp add: buttonToReportBits_def mapButtonToReport_def sample_report_def XUSB_REPORT_zero_def)

text \<open>
  Claim C8, amended. For a button outside the output mapping's domain (\<open>Share\<close>, \<open>None\<close>, an
  unrecognized value) \<open>buttonToReportBits\<close> returns no bits and \<open>mapButtonToReport\<close> leaves the
  report unchanged: a silent no-op. The two trigger buttons set the corresponding trigger to
  its maximum and leave the button field alone; every other button ORs its non-zero mask into
  the button field. The only fatal logic error of the tables is the one of \<open>getButtonMap\<close>, for
  an unknown byte group.
\<close>

theorem unmapped_button_silent:
  "(b \<in> {Share, None_b, Unknown} \<longrightarrow>
      buttonToReportBits b = 0 \<and> mapButtonToReport b report = report)
   \<and> mapButtonToReport LZ report = report\<lparr>bLeftTrigger := 255\<rparr>
   \<and> mapButtonToReport RZ report = report\<lparr>bRightTrigger := 255\<rparr>
   \<and> (b \<notin> {Share, None_b, Unknown, LZ, RZ} \<longrightarrow>
      buttonToReportBits b \<noteq> 0
      \<and> mapButtonToReport b report = report\<lparr>wButtons := wButtons report OR buttonToReportBits b\<rparr>)
   \<and> getButtonMap hc UnknownSource =
       Inl (logic_error ''Unknown ButtonSource passed to getButtonMap'')"
  by (cases b) (simp_all add: buttonToReportBits_def mapButtonToReport_def BYTE_max_def
      getButtonMap_def)

theorem unmapped_button_silent_witness:
  "Share \<in> {Share, None_b, Unknown}
   \<and> buttonToReportBits Share = 0
   \<and> mapButtonToReport Share sample_report = sample_report
   \<and> A \<notin> {Share, None_b, Unknown, LZ, RZ}
   \<and> wButtons (mapButtonToReport A XUSB_REPORT_zero) = 0x1000"
  using unmapped_button_silent [of Share sample_report sample_consts]
    unmapped_button_silent [of A XUSB_REPORT_zero sample_consts]
  by (simp add: buttonToReportBits_def XUSB_REPORT_zero_def)

section \<open>Feedback correlator\<close>

text \<open>
  Claim C3. A feedback callback with identity \<open>t\<close> and values (large motor, small motor, LED):
  if no registered session has a virtual controller whose product id, serial, state and vendor
  id all equal those of \<open>t\<close>, the world is unchanged; otherwise one registered session with
  all four fields equal is selected, and the world changes in exactly the three feedback
  fields of that session, which take the values of the callback.
\<close>

theorem vigemCallback_correlates:
  "((\<forall>r \<in> set (controllers w).
        \<not> (ProductId (vController (heap w r)) = ProductId t
           \<and> SerialNo (vController (heap w r)) = SerialNo t
           \<and> State (vController (heap w r)) = State t
           \<and> VendorId (vController (heap w r)) = VendorId t))
      \<longrightarrow> vigemCallback t lm sm ld w = w)
   \<and> ((\<exists>r \<in> set (controllers w).
          ProductId (vController (heap w r)) = ProductId t
          \<and> SerialNo (vController (heap w r)) = SerialNo t
          \<and> State (vController (heap w r)) = State t
          \<and> VendorId (vController (heap w r)) = VendorId t)
      \<longrightarrow> (\<exists>con \<in> set (controllers w).
            ProductId (vController (heap w con)) = ProductId t
            \<and> SerialNo (vController (heap w con)) = SerialNo t
            \<and> State (vController (heap w con)) = State t
            \<and> VendorId (vController (heap w con)) = VendorId t
            \<and> vigemCallback t lm sm ld w =
                w\<lparr>heap := (heap w)(con := (heap w con)\<lparr>currentLed := ld, largeMotor := lm,
                                                         smallMotor := sm\<rparr>)\<rparr>))"
proof (cases "find (\<lambda>r. targetEquals (vController (heap w r)) t) (controllers w)")
  case None
  then have "\<forall>r \<in> set (controllers w). \<not> targetEquals (vController (heap w r)) t"
    by (simp add: find_None_iff)
  with None show ?thesis
    by (auto simp add: vigemCallback_def targetEquals_def)
next
  case (Some con)
  then have "con \<in> set (controllers w)" and "targetEquals (vController (heap w con)) t"
    by (auto simp add: find_Some_iff)
  with Some show ?thesis
    by (auto simp add: vigemCallback_def targetEquals_def update_obj_def)
qed

theorem vigemCallback_correlates_witness:
  "(\<exists>r \<in> set (controllers two_sessions).
        ProductId (vController (heap two_sessions r)) = ProductId (connected_target 2)
        \<and> SerialNo (vController (heap two_sessions r)) = SerialNo (connected_target 2)
        \<and> State (vController (heap two_sessions r)) = State (connected_target 2)
        \<and> VendorId (vController (heap two_sessions r)) = VendorId (connected_target 2))
   \<and> largeMotor (heap (vigemCallback (connected_target 2) 10 20 3 two_sessions) 2) = 10
   \<and> smallMotor (heap (vigemCallback (connected_target 2) 10 20 3 two_sessions) 2) = 20
   \<and> currentLed (heap (vigemCallback (connected_target 2) 10 20 3 two_sessions) 2) = 3
   \<and> heap (vigemCallback (connected_target 2) 10 20 3 two_sessions) 1 = heap two_sessions 1
   \<and> \<not> (\<exists>r \<in> set (controllers two_sessions).
        ProductId (vController (heap two_sessions r)) = ProductId (connected_target 9)
        \<and> SerialNo (vController (heap two_sessions r)) = SerialNo (connected_target 9)
        \<and> State (vController (heap two_sessions r)) = State (connected_target 9)
        \<and> VendorId (vController (heap two_sessions r)) = VendorId (connected_target 9))
   \<and> vigemCallback (connected_target 9) 10 20 3 two_sessions = two_sessions"
  using vigemCallback_correlates [of two_sessions "connected_target 2" 10 20 3]
    vigemCallback_correlates [of two_sessions "connected_target 9" 10 20 3]
  by (auto simp add: two_sessions_def connected_target_def blank_controller_def)

section \<open>Polling\<close>


lemma bytes_of_buf_of:
  "bytes_of (buf_of xs) = xs @ replicate (22 - length xs) 0"
  by (simp add: buf_of_def Abs_exchange_buf_inverse sizeof_InputPacket_def)

text \<open>
  Claim C4. When the device is open and the input exchange returns a buffer whose first byte
  is \<open>0x30\<close>, the poll raises nothing and does nothing beyond the exchange itself: the only
  call it makes is the get-input command, no report is submitted, no object changes.
\<close>

theorem pollInput_sentinel_noop:
  assumes "device (heap w self) \<noteq> None"
    and "io_reply ev (trace w) (sendCommand_call self 0x1f []) = Some buf"
    and "bytes_of buf = 0x30 # rest"
  shows "pollInput hc ev self w = (None, w\<lparr>trace := trace w @ [sendCommand_call self 0x1f []]\<rparr>)"
  using assms
  by (cases "device (heap w self)")
    (simp_all add: pollInput_def sendCommand_def getInput_def empty_def emit_def
      pollInput_report_def)

theorem pollInput_sentinel_noop_witness:
  "device (heap two_sessions 1) \<noteq> None
   \<and> io_reply (env_poll (buf_of [0x30, 0x01, 0x02])) (trace two_sessions)
        (sendCommand_call 1 0x1f []) = Some (buf_of [0x30, 0x01, 0x02])
   \<and> bytes_of (buf_of [0x30, 0x01, 0x02]) = 0x30 # [0x01, 0x02] @ replicate 19 0
   \<and> fst (pollInput sample_consts (env_poll (buf_of [0x30, 0x01, 0x02])) 1 two_sessions) = None
   \<and> trace (snd (pollInput sample_consts (env_poll (buf_of [0x30, 0x01, 0x02])) 1 two_sessions))
       = [sendCommand_call 1 0x1f []]"
proof -
  have d: "device (heap two_sessions 1) \<noteq> None"
    by (simp add: two_sessions_def)
  have r: "io_reply (env_poll (buf_of [0x30, 0x01, 0x02])) (trace two_sessions)
        (sendCommand_call 1 0x1f []) = Some (buf_of [0x30, 0x01, 0x02])"
    by (simp add: env_poll_def env_ok_def)
  have b: "bytes_of (buf_of [0x30, 0x01, 0x02]) = 0x30 # [0x01, 0x02] @ replicate 19 0"
    by (simp add: bytes_of_buf_of)
  from pollInput_sentinel_noop [OF d r b, of sample_consts] d r b show ?thesis
    by (simp add: two_sessions_def)
qed














section \<open>Destruction\<close>

text \<open>
  Claim C9. Destroying a session whose virtual controller is connected and whose device
  handle is open makes, whatever the device answers, exactly these calls in this order: the
  unplug of the virtual controller, the exchange of the bytes \<open>80 05\<close>, and, after the body,
  the closing of the handle. The registry is untouched until both calls of the body have been
  made; afterwards the session is no longer in it.
\<close>

theorem dtor_unplug_then_disconnect:
  assumes "State (vController (heap w self)) = VIGEM_TARGET_CONNECTED"
    and "device (heap w self) = Some h"
    and "distinct (controllers w)"
  shows "trace (dtor_disconnect ev self (dtor_unplug self w)) =
           trace w @ [vigem_target_unplug_call (vController (heap w self)),
                      exchange_call self [0x80, 0x05]]
   \<and> controllers (dtor_disconnect ev self (dtor_unplug self w)) = controllers w
   \<and> Controller_dtor ev self w =
       device_reset self None (dtor_erase self (dtor_disconnect ev self (dtor_unplug self w)))
   \<and> trace (Controller_dtor ev self w) =
           trace w @ [vigem_target_unplug_call (vController (heap w self)),
                      exchange_call self [0x80, 0x05], hid_close h]
   \<and> controllers (Controller_dtor ev self w) = remove1 self (controllers w)
   \<and> self \<notin> set (controllers (Controller_dtor ev self w))"
  using assms
  by (simp add: Controller_dtor_def dtor_unplug_def dtor_disconnect_def dtor_erase_def
      device_reset_def exchange_def emit_def update_obj_def disconnect_def Let_def)

theorem dtor_unplug_then_disconnect_witness:
  "State (vController (heap two_sessions 1)) = VIGEM_TARGET_CONNECTED
   \<and> device (heap two_sessions 1) = Some 7
   \<and> distinct (controllers two_sessions)
   \<and> io_reply env_silent
       (trace two_sessions @ [vigem_target_unplug_call (vController (heap two_sessions 1))])
       (exchange_call 1 [0x80, 0x05]) = None
   \<and> trace (Controller_dtor env_silent 1 two_sessions) =
       [vigem_target_unplug_call (connected_target 1), exchange_call 1 [0x80, 0x05], hid_close 7]
   \<and> controllers (Controller_dtor env_silent 1 two_sessions) = [2]"
proof -
  have a: "State (vController (heap two_sessions 1)) = VIGEM_TARGET_CONNECTED"
    by (simp add: two_sessions_def connected_target_def)
  have b: "device (heap two_sessions 1) = Some 7" by (simp add: two_sessions_def)
  have c: "distinct (controllers two_sessions)" by (simp add: two_sessions_def)
  have d: "io_reply env_silent
       (trace two_sessions @ [vigem_target_unplug_call (vController (heap two_sessions 1))])
       (exchange_call 1 [0x80, 0x05]) = None"
    by (simp add: env_silent_def)
  have e: "trace two_sessions = []" "vController (heap two_sessions 1) = connected_target 1"
    "remove1 1 (controllers two_sessions) = [2]"
    by (simp_all add: two_sessions_def)
  from dtor_unplug_then_disconnect [OF a b c, of env_silent]
  have "trace (Controller_dtor env_silent 1 two_sessions) =
      trace two_sessions @ [vigem_target_unplug_call (vController (heap two_sessions 1)),
                            exchange_call 1 [0x80, 0x05], hid_close 7]"
    and "controllers (Controller_dtor env_silent 1 two_sessions) =
      remove1 1 (controllers two_sessions)"
    by blast+
  then have "trace (Controller_dtor env_silent 1 two_sessions) =
       [vigem_target_unplug_call (connected_target 1), exchange_call 1 [0x80, 0x05], hid_close 7]"
    and "controllers (Controller_dtor env_silent 1 two_sessions) = [2]"
    by (simp_all only: e append_Nil)
  with a b c d show ?thesis by (intro conjI)
qed

section \<open>Opening the device\<close>

lemma exchange_simps:
  "fst (exchange ev self bytes w) = io_reply ev (trace w) (exchange_call self bytes)"
  "snd (exchange ev self bytes w) = emit (exchange_call self bytes) w"
  by (simp_all add: exchange_def)

lemma sendSubcommand_snd:
  "snd (sendSubcommand ev self command subcommand bytes w) =
     update_obj self (\<lambda>c. c\<lparr>subcommandId := subcommandId (heap w self) + 1\<rparr>)
       (emit (sendSubcommand_call self (subcommandId (heap w self)) command subcommand bytes) w)"
  by (simp add: sendSubcommand_def Let_def)

lemma emit_simps:
  "trace (emit e w) = trace w @ [e]"
  "heap (emit e w) = heap w"
  "controllers (emit e w) = controllers w"
  by (simp_all add: emit_def)

lemma update_obj_simps:
  "trace (update_obj a f w) = trace w"
  "heap (update_obj a f w) = (heap w)(a := f (heap w a))"
  "controllers (update_obj a f w) = controllers w"
  by (simp_all add: update_obj_def)

lemma device_reset_simps:
  "controllers (device_reset self p w) = controllers w"
  "vController (heap (device_reset self p w) self) = vController (heap w self)"
  "device (heap (device_reset self p w) self) = p"
  "trace (device_reset self p w) =
     trace w @ (case device (heap w self) of None \<Rightarrow> [] | Some h \<Rightarrow> [hid_close h])"
  by (simp_all add: device_reset_def Let_def emit_simps update_obj_simps split: option.split)

lemma openDevice_tail_plug_ok:
  assumes "fst (plugin_reply ev (trace w3 @ tail_calls self (subcommandId (heap w3 self)))) = VIGEM_ERROR_NONE"
  shows "fst (openDevice_tail ev self w3) = None"
    and "trace (snd (openDevice_tail ev self w3)) =
      trace w3 @ tail_calls self (subcommandId (heap w3 self)) @
        [vigem_target_plugin_call (vController (heap w3 self)),
         sleep_for_milliseconds 100,
         vigem_register_xusb_notification_call
           ((vController (heap w3 self))
              \<lparr>State := VIGEM_TARGET_CONNECTED,
               SerialNo := snd (plugin_reply ev (trace w3 @ tail_calls self (subcommandId (heap w3 self))))\<rparr>),
         sleep_for_milliseconds 100]"
    and "controllers (snd (openDevice_tail ev self w3)) = controllers w3"
  using assms
  by (simp_all add: openDevice_tail_def tail_calls_def Let_def exchange_simps sendSubcommand_snd
      emit_simps update_obj_simps vigem_target_plugin_def split_beta
      switchBaudrate_def handshake_def HIDOnlyMode_def rumbleCommand_def imuDataCommand_def
      ledCommand_def enable_def led_def add.assoc)

lemma openDevice_tail_plug_fails:
  assumes "fst (plugin_reply ev (trace w3 @ tail_calls self (subcommandId (heap w3 self)))) \<noteq> VIGEM_ERROR_NONE"
  shows "fst (openDevice_tail ev self w3) =
      Some (ControllerException ''Unable to plugin ViGEm controller.'')"
    and "trace (snd (openDevice_tail ev self w3)) =
      trace w3 @ tail_calls self (subcommandId (heap w3 self)) @
        [vigem_target_plugin_call (vController (heap w3 self))] @
        (case device (heap w3 self) of None \<Rightarrow> [] | Some h \<Rightarrow> [hid_close h])"
    and "controllers (snd (openDevice_tail ev self w3)) = controllers w3"
    and "vController (heap (snd (openDevice_tail ev self w3)) self) = vController (heap w3 self)"
  using assms
  by (simp_all add: openDevice_tail_def tail_calls_def Let_def exchange_simps sendSubcommand_snd
      emit_simps update_obj_simps vigem_target_plugin_def split_beta device_reset_simps
      switchBaudrate_def handshake_def HIDOnlyMode_def rumbleCommand_def imuDataCommand_def
      ledCommand_def enable_def led_def add.assoc)


lemma openDevice_opened:
  assumes "product_id d = Procon_ID hc"
    and "open_reply ev (trace w) (path d) = Some h"
    and "device (heap w self) = None"
  shows "openDevice hc ev self (Some d) w =
     (case exchange ev self handshake
             (device_reset self (Some h) (emit (hid_open_path (path d)) w)) of
        (None, w3) \<Rightarrow> (Some (ControllerException ''Handshake failed.''), w3)
      | (Some ack, w3) \<Rightarrow> openDevice_tail ev self w3)"
  using assms by (simp add: openDevice_def Let_def device_reset_simps)

lemma subcommand_ids_append:
  "subcommand_ids (xs @ ys) = subcommand_ids xs @ subcommand_ids ys"
  by (induction xs rule: subcommand_ids.induct) simp_all

lemma three_ids:
  fixes k :: uchar
  shows "distinct [k, k + 1, k + 2]"
    and "unat k < 254 \<Longrightarrow> unat k < unat (k + 1) \<and> unat (k + 1) < unat (k + 2)"
proof -
  show "distinct [k, k + 1, k + 2]" by simp
  assume "unat k < 254"
  then have "unat (k + 1) = unat k + 1" and "unat (k + 2) = unat k + 2"
    by (simp_all add: unat_word_ariths)
  then show "unat k < unat (k + 1) \<and> unat (k + 1) < unat (k + 2)" by simp
qed

text \<open>
  Claim C6. Once the device has been opened, \<open>openDevice\<close> fails with "Handshake failed."
  if and only if the first handshake exchange is not answered, and then nothing else is sent.
  Otherwise it sends, in this order, handshake, switch-baud-rate, handshake, HID-only-mode
  and the three feature-enable subcommands (rumble \<open>48\<close>, IMU \<open>40\<close>, LED \<open>30\<close>), then plugs
  in the virtual controller; whatever the later exchanges answer, the only error left is the
  plug-in error. The three subcommands are tagged with the ids \<open>k\<close>, \<open>k + 1\<close>, \<open>k + 2\<close>,
  where \<open>k\<close> is the id of the session before the call: each id is the one before plus one,
  the three are pairwise different, and they increase as numbers unless the byte wraps.
\<close>

theorem openDevice_sequence:
  assumes "product_id d = Procon_ID hc"
    and "open_reply ev (trace w) (path d) = Some h"
    and "device (heap w self) = None"
  shows "(fst (openDevice hc ev self (Some d) w) = Some (ControllerException ''Handshake failed.''))
       = (io_reply ev (trace w @ [hid_open_path (path d)]) (exchange_call self [0x80, 0x02]) = None)
   \<and> (io_reply ev (trace w @ [hid_open_path (path d)]) (exchange_call self [0x80, 0x02]) = None
        \<longrightarrow> trace (snd (openDevice hc ev self (Some d) w)) =
              trace w @ [hid_open_path (path d), exchange_call self [0x80, 0x02]])
   \<and> (io_reply ev (trace w @ [hid_open_path (path d)]) (exchange_call self [0x80, 0x02]) \<noteq> None
        \<longrightarrow> take 9 (drop (length (trace w)) (trace (snd (openDevice hc ev self (Some d) w)))) =
              [hid_open_path (path d),
               exchange_call self [0x80, 0x02],
               exchange_call self [0x80, 0x03],
               exchange_call self [0x80, 0x02],
               exchange_call self [0x80, 0x04],
               sendSubcommand_call self (subcommandId (heap w self)) 1 0x48 [1],
               sendSubcommand_call self (subcommandId (heap w self) + 1) 1 0x40 [1],
               sendSubcommand_call self (subcommandId (heap w self) + 2) 1 0x30 [1],
               vigem_target_plugin_call (vController (heap w self))]
            \<and> subcommand_ids (trace (snd (openDevice hc ev self (Some d) w))) =
                subcommand_ids (trace w) @
                  [subcommandId (heap w self), subcommandId (heap w self) + 1,
                   subcommandId (heap w self) + 2]
            \<and> distinct [subcommandId (heap w self), subcommandId (heap w self) + 1,
                         subcommandId (heap w self) + 2]
            \<and> (unat (subcommandId (heap w self)) < 254 \<longrightarrow>
                 unat (subcommandId (heap w self)) < unat (subcommandId (heap w self) + 1)
                 \<and> unat (subcommandId (heap w self) + 1) < unat (subcommandId (heap w self) + 2))
            \<and> (fst (openDevice hc ev self (Some d) w) = None
                \<or> fst (openDevice hc ev self (Some d) w) =
                    Some (ControllerException ''Unable to plugin ViGEm controller.'')))"
proof -
  let ?w2 = "device_reset self (Some h) (emit (hid_open_path (path d)) w)"
  let ?w3 = "emit (exchange_call self [0x80, 0x02]) ?w2"
  let ?r = "io_reply ev (trace w @ [hid_open_path (path d)]) (exchange_call self [0x80, 0x02])"
  let ?k = "subcommandId (heap w self)"
  have t2: "trace ?w2 = trace w @ [hid_open_path (path d)]"
    using assms(3) by (simp add: device_reset_simps emit_simps)
  have t3: "trace ?w3 = trace w @ [hid_open_path (path d), exchange_call self [0x80, 0x02]]"
    by (simp add: emit_simps t2)
  have v3: "vController (heap ?w3 self) = vController (heap w self)"
    by (simp add: emit_simps device_reset_simps)
  have d3: "device (heap ?w3 self) = Some h"
    by (simp add: emit_simps device_reset_simps)
  have k3: "subcommandId (heap ?w3 self) = ?k"
    using assms(3) by (simp add: emit_simps device_reset_def update_obj_simps Let_def)
  have od: "openDevice hc ev self (Some d) w =
      (case ?r of None \<Rightarrow> (Some (ControllerException ''Handshake failed.''), ?w3)
       | Some ack \<Rightarrow> openDevice_tail ev self ?w3)"
    unfolding openDevice_opened [OF assms]
    by (simp add: exchange_def handshake_def t2 split: option.split)
  note ids = three_ids [of ?k]
  show ?thesis
  proof (cases ?r)
    case None
    then show ?thesis by (simp add: od t3)
  next
    case (Some ack)
    then have od': "openDevice hc ev self (Some d) w = openDevice_tail ev self ?w3"
      by (simp add: od)
    show ?thesis
    proof (cases "fst (plugin_reply ev (trace ?w3 @ tail_calls self ?k)) = VIGEM_ERROR_NONE")
      case True
      from openDevice_tail_plug_ok [of ev ?w3 self] True Some ids show ?thesis
        unfolding od' k3 by (simp add: t3 v3 tail_calls_def subcommand_ids_append)
    next
      case False
      from openDevice_tail_plug_fails [of ev ?w3 self] False Some ids show ?thesis
        unfolding od' k3 by (simp add: t3 v3 d3 tail_calls_def subcommand_ids_append)
    qed
  qed
qed

theorem openDevice_sequence_witness:
  "product_id sample_dev = Procon_ID sample_consts
   \<and> open_reply env_silent (trace (Controller_ctor 1 blank_world)) (path sample_dev) = Some 7
   \<and> device (heap (Controller_ctor 1 blank_world) 1) = None
   \<and> fst (openDevice sample_consts env_silent 1 (Some sample_dev) (Controller_ctor 1 blank_world))
       = Some (ControllerException ''Handshake failed.'')
   \<and> trace (snd (openDevice sample_consts env_silent 1 (Some sample_dev)
                     (Controller_ctor 1 blank_world)))
       = [hid_open_path ''pro0'', exchange_call 1 [0x80, 0x02]]
   \<and> take 9 (drop (length (trace (Controller_ctor 1 blank_world)))
        (trace (snd (openDevice sample_consts env_ok 1 (Some sample_dev)
                       (Controller_ctor 1 blank_world)))))
       = [hid_open_path ''pro0'',
          exchange_call 1 [0x80, 0x02], exchange_call 1 [0x80, 0x03],
          exchange_call 1 [0x80, 0x02], exchange_call 1 [0x80, 0x04],
          sendSubcommand_call 1 0 1 0x48 [1], sendSubcommand_call 1 1 1 0x40 [1],
          sendSubcommand_call 1 2 1 0x30 [1],
          vigem_target_plugin_call VIGEM_TARGET_INIT]
   \<and> subcommand_ids (trace (snd (openDevice sample_consts env_ok 1 (Some sample_dev)
                                     (Controller_ctor 1 blank_world)))) = [0, 1, 2]
   \<and> unat (0 :: uchar) < unat (1 :: uchar) \<and> unat (1 :: uchar) < unat (2 :: uchar)"
proof -
  let ?w = "Controller_ctor 1 blank_world"
  have a: "product_id sample_dev = Procon_ID sample_consts"
    by (simp add: sample_dev_def sample_consts_def)
  have b: "open_reply env_silent (trace ?w) (path sample_dev) = Some 7"
    and b': "open_reply env_ok (trace ?w) (path sample_dev) = Some 7"
    by (simp_all add: env_silent_def env_ok_def)
  have c: "device (heap ?w 1) = None"
    by (simp add: Controller_ctor_def update_obj_def)
  have e: "trace ?w = []" "path sample_dev = ''pro0''" "vController (heap ?w 1) = VIGEM_TARGET_INIT"
    "subcommandId (heap ?w 1) = 0" "subcommand_ids [] = []"
    by (simp_all add: Controller_ctor_def update_obj_def blank_world_def sample_dev_def
        blank_controller_def)
  have n: "io_reply env_silent (trace ?w @ [hid_open_path (path sample_dev)])
             (exchange_call 1 [0x80, 0x02]) = None"
    and n': "io_reply env_ok (trace ?w @ [hid_open_path (path sample_dev)])
             (exchange_call 1 [0x80, 0x02]) \<noteq> None"
    by (simp_all add: env_silent_def env_ok_def)
  have u: "unat (subcommandId (heap ?w 1)) < 254" by (simp only: e) simp
  from openDevice_sequence [OF a b c] n
  have "fst (openDevice sample_consts env_silent 1 (Some sample_dev) ?w)
       = Some (ControllerException ''Handshake failed.'')"
    and "trace (snd (openDevice sample_consts env_silent 1 (Some sample_dev) ?w))
       = trace ?w @ [hid_open_path (path sample_dev), exchange_call 1 [0x80, 0x02]]"
    by blast+
  moreover from openDevice_sequence [OF a b' c] n' u
  have "take 9 (drop (length (trace ?w))
        (trace (snd (openDevice sample_consts env_ok 1 (Some sample_dev) ?w))))
       = [hid_open_path (path sample_dev),
          exchange_call 1 [0x80, 0x02], exchange_call 1 [0x80, 0x03],
          exchange_call 1 [0x80, 0x02], exchange_call 1 [0x80, 0x04],
          sendSubcommand_call 1 (subcommandId (heap ?w 1)) 1 0x48 [1],
          sendSubcommand_call 1 (subcommandId (heap ?w 1) + 1) 1 0x40 [1],
          sendSubcommand_call 1 (subcommandId (heap ?w 1) + 2) 1 0x30 [1],
          vigem_target_plugin_call (vController (heap ?w 1))]"
    and "subcommand_ids (trace (snd (openDevice sample_consts env_ok 1 (Some sample_dev) ?w))) =
           subcommand_ids (trace ?w) @
             [subcommandId (heap ?w 1), subcommandId (heap ?w 1) + 1, subcommandId (heap ?w 1) + 2]"
    and "unat (subcommandId (heap ?w 1)) < unat (subcommandId (heap ?w 1) + 1)
         \<and> unat (subcommandId (heap ?w 1) + 1) < unat (subcommandId (heap ?w 1) + 2)"
    by blast+
  ultimately show ?thesis using a b c
    by (simp only: e append_Nil simp_thms add_0 one_add_one)
qed

lemma openDevice_tail_failure:
  assumes "fst (openDevice_tail ev self w3) = Some e"
  shows "controllers (snd (openDevice_tail ev self w3)) = controllers w3
    \<and> vController (heap (snd (openDevice_tail ev self w3)) self) = vController (heap w3 self)"
proof (cases "fst (plugin_reply ev (trace w3 @ tail_calls self (subcommandId (heap w3 self)))) = VIGEM_ERROR_NONE")
  case True
  from openDevice_tail_plug_ok(1) [OF True] assms show ?thesis by simp
next
  case False
  from openDevice_tail_plug_fails(3,4) [OF False] show ?thesis by simp
qed

lemma openDevice_failure:
  assumes "fst (openDevice hc ev self dev w) = Some e"
  shows "controllers (snd (openDevice hc ev self dev w)) = controllers w"
    and "vController (heap (snd (openDevice hc ev self dev w)) self) = vController (heap w self)"
proof -
  have "controllers (snd (openDevice hc ev self dev w)) = controllers w
    \<and> vController (heap (snd (openDevice hc ev self dev w)) self) = vController (heap w self)"
  proof (cases dev)
    case None
    then show ?thesis by (simp add: openDevice_def)
  next
    case (Some d)
    let ?w2 = "device_reset self (open_reply ev (trace w) (path d)) (emit (hid_open_path (path d)) w)"
    let ?w3 = "emit (exchange_call self handshake) ?w2"
    have w3: "controllers ?w3 = controllers w" "vController (heap ?w3 self) = vController (heap w self)"
      by (simp_all add: emit_simps device_reset_simps)
    show ?thesis
    proof (cases "product_id d \<noteq> Procon_ID hc \<or> device (heap ?w2 self) = None
        \<or> io_reply ev (trace ?w2) (exchange_call self handshake) = None")
      case True
      then show ?thesis
        using w3 by (auto simp add: openDevice_def Some Let_def exchange_def emit_simps
            device_reset_simps)
    next
      case False
      then have "openDevice hc ev self dev w = openDevice_tail ev self ?w3"
        by (auto simp add: openDevice_def Some Let_def exchange_def)
      with openDevice_tail_failure [of ev self ?w3 e] assms w3 show ?thesis by simp
    qed
  qed
  then show "controllers (snd (openDevice hc ev self dev w)) = controllers w"
    and "vController (heap (snd (openDevice hc ev self dev w)) self) = vController (heap w self)"
    by simp_all
qed

text \<open>
  Claim C7, as stated, fails: when the handshake fails, the session is in the registry at
  the time the error is raised.
\<close>

theorem failed_open_stays_registered_counterexample:
  "fst (openDevice sample_consts env_silent 1 (Some sample_dev) (Controller_ctor 1 blank_world))
     = Some (ControllerException ''Handshake failed.'')
   \<and> 1 \<in> set (controllers (snd (openDevice sample_consts env_silent 1 (Some sample_dev)
                                    (Controller_ctor 1 blank_world))))"
  by (simp add: openDevice_def sample_dev_def sample_consts_def env_silent_def env_ok_def Let_def
      device_reset_simps exchange_def handshake_def emit_simps Controller_ctor_def update_obj_def
      blank_world_def)

text \<open>
  Claim C7, amended. When \<open>openDevice\<close> fails on a freshly constructed \<open>Controller\<close>, the
  error is the outcome of that very call, the virtual controller is not plugged in (its state
  is still "initialized"), and the registry is as the constructor left it: the session is
  still registered. It leaves the registry when it is destroyed.
\<close>

theorem failed_open_not_plugged_still_registered:
  assumes "fst (openDevice hc ev self dev (Controller_ctor self w)) = Some e"
  shows "State (vController (heap (snd (openDevice hc ev self dev (Controller_ctor self w))) self))
       = VIGEM_TARGET_INITIALIZED
   \<and> controllers (snd (openDevice hc ev self dev (Controller_ctor self w))) = controllers w @ [self]
   \<and> (self \<notin> set (controllers w) \<longrightarrow>
        controllers (Controller_dtor ev self
                       (snd (openDevice hc ev self dev (Controller_ctor self w)))) = controllers w)"
proof -
  let ?w' = "snd (openDevice hc ev self dev (Controller_ctor self w))"
  from openDevice_failure [OF assms]
  have c: "controllers ?w' = controllers w @ [self]"
    and v: "vController (heap ?w' self) = VIGEM_TARGET_INIT"
    by (simp_all add: Controller_ctor_def update_obj_def)
  have "controllers (Controller_dtor ev self ?w') = remove1 self (controllers ?w')"
    by (simp add: Controller_dtor_def device_reset_simps dtor_erase_def dtor_disconnect_def
        dtor_unplug_def exchange_def emit_simps)
  with c have "self \<notin> set (controllers w) \<longrightarrow> controllers (Controller_dtor ev self ?w') = controllers w"
    by (simp add: remove1_append)
  with c v show ?thesis by (simp add: VIGEM_TARGET_INIT_def)
qed

theorem failed_open_not_plugged_still_registered_witness:
  "fst (openDevice sample_consts env_silent 1 (Some sample_dev) (Controller_ctor 1 blank_world))
     = Some (ControllerException ''Handshake failed.'')
   \<and> State (vController (heap (snd (openDevice sample_consts env_silent 1 (Some sample_dev)
                                       (Controller_ctor 1 blank_world))) 1))
       = VIGEM_TARGET_INITIALIZED
   \<and> controllers (snd (openDevice sample_consts env_silent 1 (Some sample_dev)
                          (Controller_ctor 1 blank_world))) = [1]
   \<and> controllers (Controller_dtor env_silent 1
        (snd (openDevice sample_consts env_silent 1 (Some sample_dev)
                (Controller_ctor 1 blank_world)))) = []"
proof -
  have f: "fst (openDevice sample_consts env_silent 1 (Some sample_dev) (Controller_ctor 1 blank_world))
     = Some (ControllerException ''Handshake failed.'')"
    by (simp add: openDevice_def sample_dev_def sample_consts_def env_silent_def env_ok_def
        Let_def device_reset_simps exchange_def handshake_def emit_simps Controller_ctor_def
        update_obj_def blank_world_def)
  have e: "controllers blank_world = []" by (simp add: blank_world_def)
  from failed_open_not_plugged_still_registered [OF f] f show ?thesis
    by (simp add: e)
qed

end
